theory Spec2Isabelle
  imports Main
begin

section \<open>Python values and strings\<close>

text \<open>
  A Python \<open>str\<close> is modelled as a \<open>string\<close> whose characters are the code points
  0..255; every literal of the two source files is ASCII. The parameter mappings of
  \<open>validate_tool_call\<close> are typed \<open>Dict[str, Any]\<close>: a value is a string, an integer or
  \<open>None\<close>.
\<close>

datatype pyval = PStr string | PInt int | PNone

datatype py_error =
    TypeError | AttributeError | IndexError | KeyError | ReError
  | ValueError | UnicodeEncodeError

abbreviation bsl :: char where
  "bsl \<equiv> CHR 0x5C"

abbreviation newline :: char where
  "newline \<equiv> CHR 0x0A"

definition py_isspace :: "char \<Rightarrow> bool" where
  \<comment> \<open>\<open>str.isspace\<close> on one character: tab, LF, VT, FF, CR, FS, GS, RS, US, space, NEL, NBSP\<close>
  "py_isspace c = ((of_char c :: nat) \<in> {9, 10, 11, 12, 13, 28, 29, 30, 31, 32, 133, 160})"

definition py_isdigit :: "char \<Rightarrow> bool" where
  "py_isdigit c = (48 \<le> (of_char c :: nat) \<and> (of_char c :: nat) \<le> 57)"

definition py_isalnum_ascii :: "char \<Rightarrow> bool" where
  "py_isalnum_ascii c =
     (let n = (of_char c :: nat)
      in (48 \<le> n \<and> n \<le> 57) \<or> (65 \<le> n \<and> n \<le> 90) \<or> (97 \<le> n \<and> n \<le> 122))"

definition lower_char :: "char \<Rightarrow> char" where
  \<comment> \<open>\<open>str.lower\<close> on one character: A-Z and the Latin-1 capitals (all but the
      multiplication sign 0xD7) move up by 32\<close>
  "lower_char c =
     (let n = (of_char c :: nat)
      in if (65 \<le> n \<and> n \<le> 90) \<or> (192 \<le> n \<and> n \<le> 222 \<and> n \<noteq> 215)
         then char_of (n + 32) else c)"

definition py_lower :: "string \<Rightarrow> string" where
  "py_lower s = map lower_char s"

fun show_nat :: "nat \<Rightarrow> string" where
  "show_nat n =
     (if n < 10 then [char_of (48 + n)]
      else show_nat (n div 10) @ [char_of (48 + n mod 10)])"

declare show_nat.simps [simp del]

definition show_int :: "int \<Rightarrow> string" where
  \<comment> \<open>\<open>str(i)\<close> of a Python integer\<close>
  "show_int i = (if i < 0 then CHR ''-'' # show_nat (nat (- i)) else show_nat (nat i))"

fun startswith :: "string \<Rightarrow> string \<Rightarrow> bool" where
  "startswith s [] = True"
| "startswith [] (p # ps) = False"
| "startswith (c # cs) (p # ps) = (c = p \<and> startswith cs ps)"

fun py_in :: "string \<Rightarrow> string \<Rightarrow> bool" where
  \<comment> \<open>\<open>needle in hay\<close> on strings: substring test\<close>
  "py_in needle [] = (needle = [])"
| "py_in needle (c # cs) = (startswith (c # cs) needle \<or> py_in needle cs)"

fun split_on :: "char \<Rightarrow> string \<Rightarrow> string list" where
  \<comment> \<open>\<open>s.split(sep)\<close> for a one-character separator\<close>
  "split_on sep [] = [[]]"
| "split_on sep (c # cs) =
     (if c = sep then [] # split_on sep cs
      else (case split_on sep cs of
              [] \<Rightarrow> [[c]]
            | w # ws \<Rightarrow> (c # w) # ws))"

fun split_ws :: "string \<Rightarrow> string \<Rightarrow> string list" where
  \<comment> \<open>\<open>s.split()\<close>: the maximal runs of non-whitespace; the first argument is the
      run being read\<close>
  "split_ws w [] = (if w = [] then [] else [w])"
| "split_ws w (c # cs) =
     (if py_isspace c then (if w = [] then split_ws [] cs else w # split_ws [] cs)
      else split_ws (w @ [c]) cs)"

definition py_split :: "string \<Rightarrow> string list" where
  "py_split s = split_ws [] s"

definition py_strip :: "string \<Rightarrow> string" where
  "py_strip s = rev (dropWhile py_isspace (rev (dropWhile py_isspace s)))"

definition utf8_len :: "string \<Rightarrow> nat" where
  \<comment> \<open>\<open>len(s.encode('utf-8'))\<close>: one byte below 128, two bytes for 128..255\<close>
  "utf8_len s = sum_list (map (\<lambda>c. if (of_char c :: nat) < 128 then 1 else 2) s)"

section \<open>Regular expressions of the \<open>re\<close> module\<close>

text \<open>
  The patterns of the policy table are pattern strings handed to \<open>re.search\<close>. They are
  kept as strings and read by \<open>parse_re\<close>, which covers the part of the pattern syntax
  the table uses: literals, \<open>.\<close>, backslash escapes, \<open>*\<close>, \<open>+\<close>, \<open>|\<close> and groups. A
  backslash followed by a backslash is one literal backslash; a backslash followed by
  \<open>s\<close> or \<open>d\<close> is the whitespace or the digit class. \<open>parse_re\<close> gives \<open>None\<close> where
  \<open>re\<close> raises \<open>re.error\<close> and on syntax outside this part.
\<close>

datatype regex =
    Never
  | Empty
  | Lit char
  | AnyChar
  | SpaceCls
  | DigitCls
  | Cat regex regex
  | Or regex regex
  | Many regex
  | Many1 regex

fun cat_all :: "regex list \<Rightarrow> regex" where
  "cat_all [] = Empty"
| "cat_all [r] = r"
| "cat_all (r # rs) = Cat r (cat_all rs)"

fun or_all :: "regex list \<Rightarrow> regex" where
  "or_all [] = Never"
| "or_all [r] = r"
| "or_all (r # rs) = Or r (or_all rs)"

text \<open>
  A frame of the parser holds the finished branches of the alternation being read and
  the items of the branch being read, both newest first; an item is marked when it
  already is a repetition (\<open>re\<close> rejects a repetition of a repetition).
\<close>

type_synonym frame = "regex list \<times> (regex \<times> bool) list"

definition close_branch :: "(regex \<times> bool) list \<Rightarrow> regex" where
  "close_branch items = cat_all (rev (map fst items))"

definition close_frame :: "frame \<Rightarrow> regex" where
  "close_frame fr = or_all (rev (close_branch (snd fr) # fst fr))"

definition escape :: "char \<Rightarrow> regex option" where
  "escape e =
     (if e = CHR ''s'' then Some SpaceCls
      else if e = CHR ''d'' then Some DigitCls
      else if py_isalnum_ascii e then None
      else Some (Lit e))"

fun parse_re :: "string \<Rightarrow> frame \<Rightarrow> frame list \<Rightarrow> regex option" where
  "parse_re [] fr stack = (if stack = [] then Some (close_frame fr) else None)"
| "parse_re (c # cs) (alts, items) stack =
     (if c = bsl then
        (case cs of
           [] \<Rightarrow> None
         | e # rest \<Rightarrow>
             (case escape e of
                None \<Rightarrow> None
              | Some r \<Rightarrow> parse_re rest (alts, (r, False) # items) stack))
      else if c = CHR ''('' then parse_re cs ([], []) ((alts, items) # stack)
      else if c = CHR '')'' then
        (case stack of
           [] \<Rightarrow> None
         | (palts, pitems) # st \<Rightarrow>
             parse_re cs (palts, (close_frame (alts, items), False) # pitems) st)
      else if c = CHR ''|'' then parse_re cs (close_branch items # alts, []) stack
      else if c = CHR ''*'' \<or> c = CHR ''+'' then
        (case items of
           [] \<Rightarrow> None
         | (r, rep) # more \<Rightarrow>
             if rep then None
             else parse_re cs
                    (alts, ((if c = CHR ''*'' then Many r else Many1 r), True) # more) stack)
      else if c = CHR ''.'' then parse_re cs (alts, (AnyChar, False) # items) stack
      else if c = CHR ''{'' \<and> (case cs of [] \<Rightarrow> False | d # _ \<Rightarrow> py_isdigit d \<or> d = CHR '','')
        then None
      else if c \<in> set ''?[^$'' then None
      else parse_re cs (alts, (Lit c, False) # items) stack)"

definition compile_re :: "string \<Rightarrow> regex option" where
  "compile_re pat = parse_re pat ([], []) []"

text \<open>
  Matching is by derivatives. \<open>re.search\<close> returns a match exactly when some substring
  of the text is in the language of the pattern; with \<open>re.IGNORECASE\<close> (the flag \<open>ic\<close>)
  a literal matches a character of the same lower case.
\<close>

fun nullable :: "regex \<Rightarrow> bool" where
  "nullable Never = False"
| "nullable Empty = True"
| "nullable (Lit d) = False"
| "nullable AnyChar = False"
| "nullable SpaceCls = False"
| "nullable DigitCls = False"
| "nullable (Cat r s) = (nullable r \<and> nullable s)"
| "nullable (Or r s) = (nullable r \<or> nullable s)"
| "nullable (Many r) = True"
| "nullable (Many1 r) = nullable r"

fun deriv :: "bool \<Rightarrow> char \<Rightarrow> regex \<Rightarrow> regex" where
  "deriv ic c Never = Never"
| "deriv ic c Empty = Never"
| "deriv ic c (Lit d) =
     (if (if ic then lower_char d = lower_char c else d = c) then Empty else Never)"
| "deriv ic c AnyChar = (if c \<noteq> newline then Empty else Never)"
| "deriv ic c SpaceCls = (if py_isspace c then Empty else Never)"
| "deriv ic c DigitCls = (if py_isdigit c then Empty else Never)"
| "deriv ic c (Cat r s) =
     (if nullable r then Or (Cat (deriv ic c r) s) (deriv ic c s)
      else Cat (deriv ic c r) s)"
| "deriv ic c (Or r s) = Or (deriv ic c r) (deriv ic c s)"
| "deriv ic c (Many r) = Cat (deriv ic c r) (Many r)"
| "deriv ic c (Many1 r) = Cat (deriv ic c r) (Many r)"

fun match_prefix :: "bool \<Rightarrow> regex \<Rightarrow> string \<Rightarrow> bool" where
  \<comment> \<open>some prefix of the text is in the language\<close>
  "match_prefix ic r [] = nullable r"
| "match_prefix ic r (c # cs) = (nullable r \<or> match_prefix ic (deriv ic c r) cs)"

fun search :: "bool \<Rightarrow> regex \<Rightarrow> string \<Rightarrow> bool" where
  \<comment> \<open>some substring of the text is in the language\<close>
  "search ic r [] = nullable r"
| "search ic r (c # cs) = (match_prefix ic r (c # cs) \<or> search ic r cs)"

definition re_search :: "bool \<Rightarrow> string \<Rightarrow> pyval \<Rightarrow> py_error + bool" where
  \<comment> \<open>\<open>re.search(pat, v, flags) is not None\<close>: the pattern is compiled first, then a
      text that is not a string is a \<open>TypeError\<close>\<close>
  "re_search ic pat v =
     (case compile_re pat of
        None \<Rightarrow> Inl ReError
      | Some r \<Rightarrow> (case v of PStr s \<Rightarrow> Inr (search ic r s) | _ \<Rightarrow> Inl TypeError))"

section \<open>\<open>pathlib\<close>: the suffix of a path\<close>

definition path_name :: "string \<Rightarrow> string" where
  \<comment> \<open>\<open>Path(s).name\<close> on POSIX: the last component that is neither empty nor \<open>.\<close>\<close>
  "path_name s =
     (case rev (filter (\<lambda>p. p \<noteq> [] \<and> p \<noteq> ''.'') (split_on (CHR ''/'') s)) of
        [] \<Rightarrow> []
      | p # _ \<Rightarrow> p)"

definition rfind :: "char \<Rightarrow> string \<Rightarrow> nat option" where
  "rfind c s =
     (if c \<in> set s then Some (length s - 1 - length (takeWhile (\<lambda>x. x \<noteq> c) (rev s)))
      else None)"

definition path_suffix :: "string \<Rightarrow> string" where
  \<comment> \<open>\<open>Path(s).suffix\<close>: from the last dot of the name, unless that dot is the first
      or the last character of the name\<close>
  "path_suffix s =
     (let name = path_name s
      in case rfind (CHR ''.'') name of
           None \<Rightarrow> []
         | Some i \<Rightarrow> if 0 < i \<and> i + 1 < length name then drop i name else [])"

section \<open>The policy table and \<open>validate_tool_call\<close> (generate-agent-enhanced.py)\<close>

text \<open>
  A policy is a dictionary; a key that an entry does not have is \<open>None\<close>, and
  \<open>policy[key]\<close> on it is a \<open>KeyError\<close>.
\<close>

record policy =
  allowed_paths :: "string list option"
  blocked_patterns :: "string list option"
  max_file_size :: "int option"
  timeout :: "int option"
  require_safe_paths :: "bool option"
  allowed_extensions :: "string list option"
  blocked_paths :: "string list option"
  allowed_schemes :: "string list option"
  blocked_domains :: "string list option"
  max_redirects :: "int option"
  require_https :: "bool option"
  allowed_commands :: "string list option"
  max_output_size :: "int option"
  allow_sudo :: "bool option"
  require_shell :: "bool option"
  allowed_directories :: "string list option"
  create_backup :: "bool option"
  max_attempts :: "int option"
  require_validation :: "bool option"
  logging_level :: "string option"

definition empty_policy :: policy where
  "empty_policy =
     \<lparr>allowed_paths = None, blocked_patterns = None, max_file_size = None, timeout = None,
      require_safe_paths = None, allowed_extensions = None, blocked_paths = None,
      allowed_schemes = None, blocked_domains = None, max_redirects = None,
      require_https = None, allowed_commands = None, max_output_size = None,
      allow_sudo = None, require_shell = None, allowed_directories = None,
      create_backup = None, max_attempts = None, require_validation = None,
      logging_level = None\<rparr>"

definition sensitive_paths :: "string list" where
  \<comment> \<open>\<open>[r'/etc/', r'/proc/', r'/sys/', r'/root/', r'~/.ssh', r'~/.gnupg']\<close>\<close>
  "sensitive_paths = [''/etc/'', ''/proc/'', ''/sys/'', ''/root/'', ''~/.ssh'', ''~/.gnupg'']"

definition command_patterns :: "string list" where
  \<comment> \<open>the raw strings of the source, each backslash of the source text being one
      character \<open>bsl\<close>:
      \<^verbatim>\<open>r'rm\\s+-rf', r'dd\\s+if=', r':\\(\\)\\{', r'chmod\\s+\\d+\\s+/',\<close>
      \<^verbatim>\<open>r'>\\s*/dev/sd', r'wget.*\\|', r'curl.*\\|'\<close>\<close>
  "command_patterns =
     [''rm'' @ [bsl, bsl] @ ''s+-rf'',
      ''dd'' @ [bsl, bsl] @ ''s+if='',
      '':'' @ [bsl, bsl] @ ''('' @ [bsl, bsl] @ '')'' @ [bsl, bsl] @ ''{'',
      ''chmod'' @ [bsl, bsl] @ ''s+'' @ [bsl, bsl] @ ''d+'' @ [bsl, bsl] @ ''s+/'',
      ''>'' @ [bsl, bsl] @ ''s*/dev/sd'',
      ''wget.*'' @ [bsl, bsl] @ ''|'',
      ''curl.*'' @ [bsl, bsl] @ ''|'']"

definition search_files_policy :: policy where
  "search_files_policy = empty_policy
     \<lparr>allowed_paths := Some [''.'', ''./workspace'', ''./project'', ''./src''],
      blocked_patterns :=
        Some [''/etc/'', ''/proc/'', ''/sys/'', ''~/.ssh'', ''~/.gnupg'', ''/root/''],
      max_file_size := Some (10 * 1024 * 1024),
      timeout := Some 30,
      require_safe_paths := Some True\<rparr>"

definition read_file_policy :: policy where
  "read_file_policy = empty_policy
     \<lparr>allowed_extensions :=
        Some [''.py'', ''.md'', ''.txt'', ''.json'', ''.yaml'', ''.yml'', ''.js'', ''.ts'',
              ''.java'', ''.cpp'', ''.c'', ''.h''],
      blocked_paths := Some sensitive_paths,
      max_file_size := Some (5 * 1024 * 1024),
      timeout := Some 10,
      require_safe_paths := Some True\<rparr>"

definition browser_navigate_policy :: policy where
  "browser_navigate_policy = empty_policy
     \<lparr>allowed_schemes := Some [''http'', ''https''],
      blocked_domains := Some [''localhost'', ''127.0.0.1'', ''0.0.0.0'', ''file://'', ''internal''],
      timeout := Some 45,
      max_redirects := Some 5,
      require_https := Some False\<rparr>"

definition execute_command_policy :: policy where
  "execute_command_policy = empty_policy
     \<lparr>allowed_commands :=
        Some [''ls'', ''echo'', ''cat'', ''grep'', ''find'', ''pwd'', ''which'', ''head'', ''tail''],
      blocked_patterns := Some command_patterns,
      timeout := Some 60,
      max_output_size := Some (1024 * 1024),
      allow_sudo := Some False,
      require_shell := Some False\<rparr>"

definition write_to_file_policy :: policy where
  "write_to_file_policy = empty_policy
     \<lparr>allowed_directories := Some [''.'', ''./workspace'', ''./project'', ''./output'', ''./temp''],
      blocked_paths := Some sensitive_paths,
      max_file_size := Some (10 * 1024 * 1024),
      create_backup := Some True,
      timeout := Some 30,
      require_safe_paths := Some True\<rparr>"

definition default_policy :: policy where
  "default_policy = empty_policy
     \<lparr>timeout := Some 30,
      max_attempts := Some 3,
      require_validation := Some True,
      logging_level := Some ''INFO''\<rparr>"

definition generate_security_policy :: "string \<Rightarrow> policy" where
  "generate_security_policy tool_name =
     (if tool_name = ''search_files'' then search_files_policy
      else if tool_name = ''read_file'' then read_file_policy
      else if tool_name = ''browser_navigate'' then browser_navigate_policy
      else if tool_name = ''execute_command'' then execute_command_policy
      else if tool_name = ''write_to_file'' then write_to_file_policy
      else default_policy)"

record decision =
  allowed :: bool
  reason :: string
  warnings :: "string list"
  modified_params :: "(string \<times> pyval) list"

definition initial_result :: decision where
  "initial_result = \<lparr>allowed = True, reason = [], warnings = [], modified_params = []\<rparr>"

definition params_get :: "(string \<rightharpoonup> pyval) \<Rightarrow> string \<Rightarrow> pyval \<Rightarrow> pyval" where
  \<comment> \<open>\<open>params.get(key, default)\<close>\<close>
  "params_get params key dflt = (case params key of None \<Rightarrow> dflt | Some v \<Rightarrow> v)"

text \<open>A parameter that is a string when it is given at all.\<close>

definition string_or_absent :: "(string \<rightharpoonup> pyval) \<Rightarrow> string \<Rightarrow> bool" where
  "string_or_absent parameters key =
     (case parameters key of None \<Rightarrow> True | Some (PStr s) \<Rightarrow> True | Some _ \<Rightarrow> False)"

definition py_str :: "pyval \<Rightarrow> string" where
  \<comment> \<open>how an f-string renders a value\<close>
  "py_str v = (case v of PStr s \<Rightarrow> s | PInt i \<Rightarrow> show_int i | PNone \<Rightarrow> ''None'')"

fun first_match :: "bool \<Rightarrow> string list \<Rightarrow> pyval \<Rightarrow> py_error + string option" where
  \<comment> \<open>the loop \<open>for p in patterns: if re.search(p, v): ... return\<close>: the first pattern
      that matches, if any\<close>
  "first_match ic [] v = Inr None"
| "first_match ic (p # ps) v =
     (case re_search ic p v of
        Inl e \<Rightarrow> Inl e
      | Inr found \<Rightarrow> if found then Inr (Some p) else first_match ic ps v)"

definition deny :: "decision \<Rightarrow> string \<Rightarrow> decision" where
  \<comment> \<open>\<open>result['allowed'] = False; result['reason'] = text\<close>\<close>
  "deny result text = result\<lparr>allowed := False, reason := text\<rparr>"

definition warn :: "decision \<Rightarrow> string \<Rightarrow> decision" where
  \<comment> \<open>\<open>result['warnings'].append(text)\<close>\<close>
  "warn result text = result\<lparr>warnings := warnings result @ [text]\<rparr>"

definition validate_read_file ::
  "(string \<rightharpoonup> pyval) \<Rightarrow> policy \<Rightarrow> decision \<Rightarrow> py_error + decision" where
  "validate_read_file params policy result =
     (let file_path = params_get params ''path'' (PStr [])
      in case blocked_paths policy of
           None \<Rightarrow> Inl KeyError
         | Some patterns \<Rightarrow>
             (case first_match False patterns file_path of
                Inl e \<Rightarrow> Inl e
              | Inr (Some p) \<Rightarrow>
                  Inr (deny result (''Access to path blocked by policy: '' @ py_str file_path))
              | Inr None \<Rightarrow>
                  (case allowed_extensions policy of
                     None \<Rightarrow> Inr result
                   | Some exts \<Rightarrow>
                       (case file_path of
                          PStr s \<Rightarrow>
                            (let ext = py_lower (path_suffix s)
                             in if ext \<notin> set exts
                                then Inr (warn result
                                       (''File extension '' @ ext @ '' may not be supported''))
                                else Inr result)
                        | _ \<Rightarrow> Inl TypeError))))"

definition validate_write_file ::
  "(string \<rightharpoonup> pyval) \<Rightarrow> policy \<Rightarrow> decision \<Rightarrow> py_error + decision" where
  "validate_write_file params policy result =
     (let file_path = params_get params ''path'' (PStr [])
      in case blocked_paths policy of
           None \<Rightarrow> Inl KeyError
         | Some patterns \<Rightarrow>
             (case first_match False patterns file_path of
                Inl e \<Rightarrow> Inl e
              | Inr (Some p) \<Rightarrow>
                  Inr (deny result (''Write to path blocked by policy: '' @ py_str file_path))
              | Inr None \<Rightarrow>
                  (case params_get params ''content'' (PStr []) of
                     PStr content \<Rightarrow>
                       (case max_file_size policy of
                          None \<Rightarrow> Inl KeyError
                        | Some limit \<Rightarrow>
                            if int (utf8_len content) > limit
                            then Inr (deny result
                                   (''Content too large: '' @ show_nat (length content)
                                    @ '' bytes (max: '' @ show_int limit @ '')''))
                            else Inr result)
                   | _ \<Rightarrow> Inl AttributeError)))"

definition validate_execute_command ::
  "(string \<rightharpoonup> pyval) \<Rightarrow> policy \<Rightarrow> decision \<Rightarrow> py_error + decision" where
  "validate_execute_command params policy result =
     (let command = params_get params ''command'' (PStr [])
      in case blocked_patterns policy of
           None \<Rightarrow> Inl KeyError
         | Some patterns \<Rightarrow>
             (case first_match True patterns command of
                Inl e \<Rightarrow> Inl e
              | Inr (Some blocked_pattern) \<Rightarrow>
                  Inr (deny result (''Command blocked by security policy: '' @ blocked_pattern))
              | Inr None \<Rightarrow>
                  (case allowed_commands policy of
                     None \<Rightarrow> Inr result
                   | Some cmds \<Rightarrow>
                       (case command of
                          PStr s \<Rightarrow>
                            (case py_split s of
                               [] \<Rightarrow> Inl IndexError
                             | w # _ \<Rightarrow>
                                 (let cmd_start = py_lower w
                                  in if cmd_start \<notin> set cmds
                                     then Inr (warn result
                                            (''Command '' @ cmd_start @ '' not in allowed list''))
                                     else Inr result))
                        | _ \<Rightarrow> Inl AttributeError))))"

text \<open>
  \<open>urlparse\<close> of the standard library is a parameter of the model: it gives the scheme
  and the network location of its argument, or raises with a message. The whole body
  of \<open>_validate_browser_navigate\<close> after the lookup of \<open>url\<close> is inside
  \<open>try ... except Exception\<close>, which turns every exception into a denial.
\<close>

record url_parts =
  scheme :: string
  netloc :: string

definition quoted :: "string \<Rightarrow> string" where
  \<comment> \<open>\<open>str(KeyError(key))\<close>\<close>
  "quoted key = [CHR 0x27] @ key @ [CHR 0x27]"

definition validate_browser_navigate ::
  "(pyval \<Rightarrow> string + url_parts) \<Rightarrow> (string \<rightharpoonup> pyval) \<Rightarrow> policy \<Rightarrow> decision \<Rightarrow> decision" where
  "validate_browser_navigate urlparse params policy result =
     (let url = params_get params ''url'' (PStr [])
      in case urlparse url of
           Inl e \<Rightarrow> deny result (''Invalid URL format: '' @ e)
         | Inr parsed \<Rightarrow>
             (case allowed_schemes policy of
                None \<Rightarrow> deny result (''Invalid URL format: '' @ quoted ''allowed_schemes'')
              | Some schemes \<Rightarrow>
                  if scheme parsed \<notin> set schemes
                  then deny result (''URL scheme not allowed: '' @ scheme parsed)
                  else (case blocked_domains policy of
                          None \<Rightarrow>
                            deny result (''Invalid URL format: '' @ quoted ''blocked_domains'')
                        | Some domains \<Rightarrow>
                            if list_ex (\<lambda>blocked_domain. py_in blocked_domain (netloc parsed))
                                 domains
                            then deny result (''Access to domain blocked: '' @ netloc parsed)
                            else result)))"

definition validate_tool_call ::
  "(pyval \<Rightarrow> string + url_parts) \<Rightarrow> string \<Rightarrow> (string \<rightharpoonup> pyval) \<Rightarrow> py_error + decision" where
  "validate_tool_call urlparse tool_name parameters =
     (let policy = generate_security_policy tool_name;
          validation_result = initial_result
      in if tool_name = ''read_file'' then validate_read_file parameters policy validation_result
         else if tool_name = ''write_to_file''
           then validate_write_file parameters policy validation_result
         else if tool_name = ''execute_command''
           then validate_execute_command parameters policy validation_result
         else if tool_name = ''browser_navigate''
           then Inr (validate_browser_navigate urlparse parameters policy validation_result)
         else Inr validation_result)"

section \<open>Risk of a tool and compatibility of a tool set (generate-agent-enhanced.py)\<close>

definition assess_tool_risk :: "string \<Rightarrow> policy \<Rightarrow> string \<Rightarrow> string" where
  "assess_tool_risk tool_name policy security_level =
     (let high_risk_tools = [''execute_command'', ''write_to_file'', ''browser_navigate''];
          medium_risk_tools = [''read_file'', ''search_files'', ''apply_diff'']
      in if tool_name \<in> set high_risk_tools
         then (if security_level \<in> set [''high'', ''maximum''] then ''high'' else ''medium'')
         else if tool_name \<in> set medium_risk_tools then ''medium''
         else ''low'')"

definition check_tool_compatibility :: "string list \<Rightarrow> string list" where
  "check_tool_compatibility tools =
     (let issues = [];
          issues =
            (if ''execute_command'' \<in> set tools \<and> ''browser_navigate'' \<in> set tools
             then issues @ [''Combining command execution with browser automation may have security implications'']
             else issues);
          issues =
            (if length tools > 8
             then issues @ [''Large number of tools ('' @ show_nat (length tools)
                            @ '') may impact performance and increase complexity'']
             else issues)
      in issues)"

section \<open>The source validator (validate_code.py)\<close>

text \<open>
  The syntax tree of the \<open>ast\<close> module, as far as \<open>SecurityValidator\<close> tells node kinds
  apart. A \<open>Call\<close> has its line, its \<open>func\<close> and then its argument and keyword nodes;
  an \<open>Import\<close> has its line and the dotted names of its aliases; an \<open>ImportFrom\<close> has
  its line and its \<open>module\<close>, which is \<open>None\<close> for \<open>from . import y\<close>. \<open>Other\<close> is any
  other node kind with its child nodes in field order (a \<open>Module\<close> is one).
\<close>

datatype node =
    Call nat node "node list"
  | Name string
  | Attribute node string
  | Import nat "string list"
  | ImportFrom nat "string option"
  | FunctionDef "node list"
  | AsyncFunctionDef "node list"
  | Other "node list"

definition FORBIDDEN_CALLS :: "string set" where
  "FORBIDDEN_CALLS =
     {''eval'', ''exec'', ''compile'', ''__import__'',
      ''open'', ''file'', ''input'', ''raw_input'',
      ''system'', ''popen'', ''subprocess''}"

definition ALLOWED_IMPORTS :: "string set" where
  "ALLOWED_IMPORTS =
     {''langgraph'', ''langchain'', ''langchain_core'', ''langchain_community'',
      ''pydantic'', ''deepagents'',
      ''json'', ''os'', ''sys'', ''asyncio'', ''logging'', ''typing'',
      ''datetime'', ''dataclasses'', ''functools'', ''itertools'',
      ''pathlib'', ''tempfile'', ''shutil'',
      ''requests'', ''aiohttp'', ''redis'',
      ''tenacity'', ''dotenv''}"

record validator =
  errors :: "string list"
  warnings :: "string list"
  "imports" :: "string list"
  in_function_def :: bool
  depth :: int

definition new_validator :: validator where
  "new_validator =
     \<lparr>errors = [], warnings = [], imports = [], in_function_def = False, depth = 0\<rparr>"

definition root_segment :: "string \<Rightarrow> string" where
  \<comment> \<open>\<open>name.split('.')[0]\<close>; \<open>split\<close> never returns an empty list\<close>
  "root_segment name = (case split_on (CHR ''.'') name of [] \<Rightarrow> [] | w # _ \<Rightarrow> w)"

definition forbidden_call_message :: "nat \<Rightarrow> string \<Rightarrow> string" where
  "forbidden_call_message lineno ident =
     ''Line '' @ show_nat lineno @ '': Forbidden function call: '' @ ident"

definition import_message :: "nat \<Rightarrow> string \<Rightarrow> string" where
  "import_message lineno name =
     ''Line '' @ show_nat lineno @ '': Unauthorized import: '' @ name"

definition import_from_message :: "nat \<Rightarrow> string \<Rightarrow> string" where
  "import_from_message lineno name =
     ''Line '' @ show_nat lineno @ '': Unauthorized import from: '' @ name"

definition visit_alias :: "nat \<Rightarrow> string \<Rightarrow> validator \<Rightarrow> validator" where
  \<comment> \<open>one round of the loop of \<open>visit_Import\<close>\<close>
  "visit_alias lineno name v =
     (let module = root_segment name;
          v = v\<lparr>imports := imports v @ [name]\<rparr>
      in if module \<notin> ALLOWED_IMPORTS
         then v\<lparr>errors := errors v @ [import_message lineno name]\<rparr>
         else v)"

fun visit :: "node \<Rightarrow> validator \<Rightarrow> validator"
  and generic_visit :: "node list \<Rightarrow> validator \<Rightarrow> validator" where
  "visit (Call lineno func args) v =
     generic_visit (func # args)
       (case func of
          Name ident \<Rightarrow>
            if ident \<in> FORBIDDEN_CALLS
            then v\<lparr>errors := errors v @ [forbidden_call_message lineno ident]\<rparr>
            else v
        | _ \<Rightarrow> v)"
| "visit (Name ident) v = v"
| "visit (Attribute value attr) v = visit value v"
| "visit (Import lineno names) v = fold (visit_alias lineno) names v"
| "visit (ImportFrom lineno module) v =
     (case module of
        None \<Rightarrow> v
      | Some m \<Rightarrow>
          if m = [] then v
          else (let v = v\<lparr>imports := imports v @ [m]\<rparr>
                in if root_segment m \<notin> ALLOWED_IMPORTS
                   then v\<lparr>errors := errors v @ [import_from_message lineno m]\<rparr>
                   else v))"
| "visit (FunctionDef children) v =
     (let old_in_func = in_function_def v;
          v = generic_visit children (v\<lparr>in_function_def := True\<rparr>)
      in v\<lparr>in_function_def := old_in_func\<rparr>)"
| "visit (AsyncFunctionDef children) v =
     (let old_in_func = in_function_def v;
          v = generic_visit children (v\<lparr>in_function_def := True\<rparr>)
      in v\<lparr>in_function_def := old_in_func\<rparr>)"
| "visit (Other children) v = generic_visit children v"
| "generic_visit [] v = v"
| "generic_visit (n # ns) v = generic_visit ns (visit n v)"

text \<open>
  What the walk reaches, in the order it reaches it: the nodes of a tree, parents
  before children.
\<close>

fun nodes :: "node \<Rightarrow> node list"
  and nodes_of_list :: "node list \<Rightarrow> node list" where
  "nodes (Call lineno func args) = Call lineno func args # nodes_of_list (func # args)"
| "nodes (Name ident) = [Name ident]"
| "nodes (Attribute value attr) = Attribute value attr # nodes value"
| "nodes (Import lineno names) = [Import lineno names]"
| "nodes (ImportFrom lineno module) = [ImportFrom lineno module]"
| "nodes (FunctionDef children) = FunctionDef children # nodes_of_list children"
| "nodes (AsyncFunctionDef children) = AsyncFunctionDef children # nodes_of_list children"
| "nodes (Other children) = Other children # nodes_of_list children"
| "nodes_of_list [] = []"
| "nodes_of_list (n # ns) = nodes n @ nodes_of_list ns"

text \<open>
  The specification's account of the scan, node by node, to be compared with \<open>visit\<close>:
  \<open>spec_errors\<close> is the diagnostics a single node contributes (a call contributes one
  when its target is a bare name of the forbidden set, an import one for each module
  whose root segment is not in the allow-list), \<open>spec_recorded_roots\<close> is what the
  specification says an import declaration records (the root segment of each module
  path), and \<open>written_modules\<close> is the module paths as the declaration writes them.
\<close>

fun spec_errors :: "node \<Rightarrow> string list" where
  "spec_errors (Call ln (Name ident) args) =
     (if ident \<in> FORBIDDEN_CALLS then [forbidden_call_message ln ident] else [])"
| "spec_errors (Import ln names) =
     map (import_message ln) (filter (\<lambda>name. root_segment name \<notin> ALLOWED_IMPORTS) names)"
| "spec_errors (ImportFrom ln (Some m)) =
     (if m \<noteq> [] \<and> root_segment m \<notin> ALLOWED_IMPORTS then [import_from_message ln m] else [])"
| "spec_errors n = []"

fun written_modules :: "node \<Rightarrow> string list" where
  "written_modules (Import ln names) = names"
| "written_modules (ImportFrom ln (Some m)) = (if m \<noteq> [] then [m] else [])"
| "written_modules n = []"

definition spec_recorded_roots :: "node \<Rightarrow> string list" where
  "spec_recorded_roots n = map root_segment (written_modules n)"

text \<open>
  \<open>ast.parse\<close> is a parameter of the model: it gives the tree of a source text or
  raises. What it raises is a \<open>SyntaxError\<close>, with a line (which may be \<open>None\<close>) and a
  message, or another exception: a \<open>ValueError\<close> for a text with a NUL character on some
  versions of the interpreter (others raise a \<open>SyntaxError\<close> without a line for it), a
  \<open>UnicodeEncodeError\<close> for a text with a lone surrogate. \<open>validate_python_code\<close>
  catches \<open>SyntaxError\<close> alone; any other exception leaves it. The interpreter's
  recursion limit, which a very deeply nested source can reach in \<open>ast.parse\<close> or in
  the walk, is not modelled.
\<close>

record SyntaxError =
  lineno :: "nat option"
  msg :: string

datatype parse_exception = IsSyntaxError SyntaxError | NotSyntaxError py_error

record ValidationResult =
  valid :: bool
  errors :: "string list"
  warnings :: "string list"
  imports_found :: "string list"

text \<open>
  Two stand-ins for \<open>ast.parse\<close> in examples: one that answers every text with a given
  tree, one that raises a given exception on every text.
\<close>

definition parses_to :: "node \<Rightarrow> string \<Rightarrow> parse_exception + node" where
  "parses_to tree code = Inr tree"

definition fails_with :: "parse_exception \<Rightarrow> string \<Rightarrow> parse_exception + node" where
  "fails_with e code = Inl e"

text \<open>
  Example sources with what \<open>ast.parse\<close> makes of them: the two lines \<open>eval(x)\<close> and
  \<open>agent.compile()\<close> with their tree and the result of validating them; three import
  declarations with their tree; a text whose third line is not a statement, with the
  error of the parser; and a text that ends in a NUL character, with the error of an
  interpreter that reports it as a \<open>SyntaxError\<close>.
\<close>

definition eval_and_method_source :: string where
  "eval_and_method_source = ''eval(x)'' @ [newline] @ ''agent.compile()''"

definition eval_and_method_tree :: node where
  "eval_and_method_tree =
     Other [Other [Call 1 (Name ''eval'') [Name ''x'']],
            Other [Call 2 (Attribute (Name ''agent'') ''compile'') []]]"

definition eval_and_method_result :: ValidationResult where
  "eval_and_method_result =
     \<lparr>valid = False,
      errors = [forbidden_call_message 1 ''eval''],
      warnings = [''No imports detected - code may be incomplete''],
      imports_found = []\<rparr>"

definition three_imports_source :: string where
  "three_imports_source =
     ''import os.path'' @ [newline] @ ''from langchain.tools import tool'' @ [newline]
     @ ''from . import helpers''"

definition three_imports_tree :: node where
  "three_imports_tree =
     Other [Import 1 [''os.path''], ImportFrom 2 (Some ''langchain.tools''), ImportFrom 3 None]"

definition bad_third_line_source :: string where
  "bad_third_line_source = ''x = 1'' @ [newline] @ ''y = 2'' @ [newline] @ ''def (''"

definition bad_third_line_error :: SyntaxError where
  "bad_third_line_error = \<lparr>lineno = Some 3, msg = ''invalid syntax''\<rparr>"

definition nul_source :: string where
  "nul_source = ''x = 1'' @ [CHR 0x00]"

definition nul_syntax_error :: SyntaxError where
  "nul_syntax_error =
     \<lparr>lineno = None, msg = ''source code string cannot contain null bytes''\<rparr>"

abbreviation dquote :: char where
  "dquote \<equiv> CHR 0x22"

definition secret_warnings :: "string list \<Rightarrow> string list" where
  \<comment> \<open>the loop "Check for hardcoded API keys"\<close>
  "secret_warnings lines =
     concat (map (\<lambda>(i, line).
        if list_ex (\<lambda>key. py_in key line)
             [''api_key = '' @ [dquote], ''token = '' @ [dquote], ''password = '' @ [dquote]]
           \<and> \<not> list_ex (\<lambda>substring. py_in substring line) [''os.getenv'', ''environ.get'']
        then [''Line '' @ show_nat i
              @ '': Potential hardcoded secret detected. Use os.getenv() instead.'']
        else []) (enumerate 1 lines))"

definition print_warnings :: "string list \<Rightarrow> string list" where
  \<comment> \<open>the loop "Check for print instead of logging"\<close>
  "print_warnings lines =
     concat (map (\<lambda>(i, line).
        if startswith (py_strip line) ''print(''
           \<and> \<not> list_ex (\<lambda>exclude. py_in exclude line) [''logging'', ''__name__'', ''argparse'']
        then [''Line '' @ show_nat i
              @ '': Use logging instead of print() for production code'']
        else []) (enumerate 1 lines))"

definition validate_python_code ::
  "(string \<Rightarrow> parse_exception + node) \<Rightarrow> string \<Rightarrow> py_error + ValidationResult" where
  "validate_python_code ast_parse code =
     (case ast_parse code of
        Inl (IsSyntaxError e) \<Rightarrow>
          Inr \<lparr>valid = False,
               errors = [''Syntax error at line ''
                         @ (case lineno e of None \<Rightarrow> ''None'' | Some n \<Rightarrow> show_nat n)
                         @ '': '' @ msg e],
               warnings = [],
               imports_found = []\<rparr>
      | Inl (NotSyntaxError x) \<Rightarrow> Inl x
      | Inr tree \<Rightarrow>
          (let validator = visit tree new_validator;
               errs = [] @ validator.errors validator;
               warns = [] @ validator.warnings validator;
               imps = imports validator;
               lines = split_on newline code;
               warns = warns @ secret_warnings lines;
               warns = warns @ print_warnings lines;
               warns = (if imps = [] then warns @ [''No imports detected - code may be incomplete'']
                        else warns)
           in Inr \<lparr>valid = (length errs = 0),
                   errors = errs,
                   warnings = warns,
                   imports_found = imps\<rparr>))"

section \<open>Facts about the model\<close>

lemmas policy_defs = generate_security_policy_def search_files_policy_def read_file_policy_def
  browser_navigate_policy_def execute_command_policy_def write_to_file_policy_def default_policy_def
  empty_policy_def sensitive_paths_def command_patterns_def

lemmas re_defs = re_search_def compile_re_def close_frame_def close_branch_def escape_def
  py_isalnum_ascii_def py_isdigit_def lower_char_def

subsection \<open>Rendering of line numbers and diagnostics\<close>

lemma show_nat_not_Nil: "show_nat n \<noteq> []"
  by (subst show_nat.simps) simp

lemma char_of_digit_inj:
  "a < 10 \<Longrightarrow> b < 10 \<Longrightarrow> char_of (48 + a :: nat) = char_of (48 + b) \<Longrightarrow> a = b"
proof -
  assume a: "a < 10" and b: "b < 10" and eq: "char_of (48 + a :: nat) = char_of (48 + b)"
  from eq have "(of_char (char_of (48 + a)) :: nat) = of_char (char_of (48 + b))" by simp
  with a b show "a = b" by (simp add: of_char_of)
qed

lemma char_of_digit_not_colon: "d < 10 \<Longrightarrow> char_of (48 + d :: nat) \<noteq> CHR '':''"
proof
  assume d: "d < 10" and eq: "char_of (48 + d :: nat) = CHR '':''"
  from eq have "(of_char (char_of (48 + d)) :: nat) = of_char (CHR '':'')" by simp
  with d show False by (simp add: of_char_of)
qed

lemma show_nat_no_colon: "CHR '':'' \<notin> set (show_nat n)"
proof (induction n rule: show_nat.induct)
  case (1 n)
  show ?case
  proof (cases "n < 10")
    case True
    then show ?thesis
      using char_of_digit_not_colon [of n] by (subst show_nat.simps) auto
  next
    case False
    then show ?thesis
      using 1 char_of_digit_not_colon [of "n mod 10"] by (subst show_nat.simps) auto
  qed
qed

lemma show_nat_inj: "show_nat m = show_nat n \<Longrightarrow> m = n"
proof (induction m arbitrary: n rule: show_nat.induct)
  case (1 m)
  show ?case
  proof (cases "m < 10")
    case m: True
    show ?thesis
    proof (cases "n < 10")
      case True
      with m 1(2) show ?thesis
        by (simp add: show_nat.simps [of m] show_nat.simps [of n] char_of_digit_inj)
    next
      case False
      with m 1(2) show_nat_not_Nil [of "n div 10"] show ?thesis
        by (simp add: show_nat.simps [of m] show_nat.simps [of n])
    qed
  next
    case m: False
    show ?thesis
    proof (cases "n < 10")
      case True
      with m 1(2) show_nat_not_Nil [of "m div 10"] show ?thesis
        by (simp add: show_nat.simps [of m] show_nat.simps [of n])
    next
      case False
      with m 1(2) have eq: "show_nat (m div 10) = show_nat (n div 10)"
        and d: "char_of (48 + m mod 10) = char_of (48 + n mod 10)"
        by (simp_all add: show_nat.simps [of m] show_nat.simps [of n])
      from 1(1) [OF m eq] have "m div 10 = n div 10" .
      moreover from d have "m mod 10 = n mod 10"
        by (intro char_of_digit_inj) simp_all
      ultimately show ?thesis
        by (metis div_mult_mod_eq)
    qed
  qed
qed

lemma before_colon_unique:
  "CHR '':'' \<notin> set a \<Longrightarrow> CHR '':'' \<notin> set b \<Longrightarrow> a @ CHR '':'' # r = b @ CHR '':'' # r' \<Longrightarrow>
   a = b \<and> r = r'"
proof (induction a arbitrary: b)
  case Nil
  then show ?case by (cases b) auto
next
  case (Cons x a)
  then show ?case by (cases b) auto
qed

lemma line_text_eq:
  "''Line '' @ show_nat m @ CHR '':'' # r = ''Line '' @ show_nat n @ CHR '':'' # r' \<longleftrightarrow>
   m = n \<and> r = r'"
  using before_colon_unique [OF show_nat_no_colon show_nat_no_colon, of m r n r']
  by (auto dest: show_nat_inj)

lemma forbidden_call_message_eq [simp]:
  "forbidden_call_message m x = forbidden_call_message n y \<longleftrightarrow> m = n \<and> x = y"
  using line_text_eq [of m "'' Forbidden function call: '' @ x" n "'' Forbidden function call: '' @ y"]
  by (simp add: forbidden_call_message_def)

lemma import_message_eq [simp]:
  "import_message m x = import_message n y \<longleftrightarrow> m = n \<and> x = y"
  using line_text_eq [of m "'' Unauthorized import: '' @ x" n "'' Unauthorized import: '' @ y"]
  by (simp add: import_message_def)

lemma import_from_message_eq [simp]:
  "import_from_message m x = import_from_message n y \<longleftrightarrow> m = n \<and> x = y"
  using line_text_eq [of m "'' Unauthorized import from: '' @ x" n "'' Unauthorized import from: '' @ y"]
  by (simp add: import_from_message_def)

lemma message_kinds_differ [simp]:
  "forbidden_call_message m x \<noteq> import_message n y"
  "forbidden_call_message m x \<noteq> import_from_message n y"
  "import_message m x \<noteq> forbidden_call_message n y"
  "import_message m x \<noteq> import_from_message n y"
  "import_from_message m x \<noteq> forbidden_call_message n y"
  "import_from_message m x \<noteq> import_message n y"
  using line_text_eq [of m "'' Forbidden function call: '' @ x" n "'' Unauthorized import: '' @ y"]
        line_text_eq [of m "'' Forbidden function call: '' @ x" n "'' Unauthorized import from: '' @ y"]
        line_text_eq [of m "'' Unauthorized import: '' @ x" n "'' Forbidden function call: '' @ y"]
        line_text_eq [of m "'' Unauthorized import: '' @ x" n "'' Unauthorized import from: '' @ y"]
        line_text_eq [of m "'' Unauthorized import from: '' @ x" n "'' Forbidden function call: '' @ y"]
        line_text_eq [of m "'' Unauthorized import from: '' @ x" n "'' Unauthorized import: '' @ y"]
  by (simp_all add: forbidden_call_message_def import_message_def import_from_message_def)

subsection \<open>The walk\<close>

lemma fold_visit_alias_errors:
  "validator.errors (fold (visit_alias ln) names v) =
     validator.errors v @ map (import_message ln) (filter (\<lambda>name. root_segment name \<notin> ALLOWED_IMPORTS) names)"
  by (induction names arbitrary: v) (simp_all add: visit_alias_def Let_def)

lemma fold_visit_alias_imports:
  "imports (fold (visit_alias ln) names v) = imports v @ names"
  by (induction names arbitrary: v) (simp_all add: visit_alias_def Let_def)

lemma visit_errors:
  "validator.errors (visit t v) = validator.errors v @ concat (map spec_errors (nodes t))"
  "validator.errors (generic_visit ts v) = validator.errors v @ concat (map spec_errors (nodes_of_list ts))"
proof (induction t v and ts v rule: visit_generic_visit.induct)
  case (1 ln func args v)
  then show ?case by (cases func) (simp_all)
next
  case (4 ln names v)
  then show ?case by (simp add: fold_visit_alias_errors)
next
  case (5 ln module v)
  then show ?case by (cases module) (simp_all add: Let_def)
qed (simp_all add: Let_def)

lemma visit_imports:
  "imports (visit t v) = imports v @ concat (map written_modules (nodes t))"
  "imports (generic_visit ts v) = imports v @ concat (map written_modules (nodes_of_list ts))"
proof (induction t v and ts v rule: visit_generic_visit.induct)
  case (1 ln func args v)
  then show ?case by (cases func) (simp_all)
next
  case (4 ln names v)
  then show ?case by (simp add: fold_visit_alias_imports)
next
  case (5 ln module v)
  then show ?case by (cases module) (simp_all add: Let_def)
qed (simp_all add: Let_def)

lemma validate_parsed:
  "ast_parse code = Inr tree \<Longrightarrow>
   \<exists>r. validate_python_code ast_parse code = Inr r
       \<and> errors r = concat (map spec_errors (nodes tree))
       \<and> imports_found r = concat (map written_modules (nodes tree))
       \<and> valid r = (errors r = [])"
  by (simp add: validate_python_code_def Let_def visit_errors visit_imports new_validator_def)

lemmas validate_eval = validate_python_code_def parses_to_def fails_with_def Let_def
  new_validator_def visit_alias_def root_segment_def ALLOWED_IMPORTS_def FORBIDDEN_CALLS_def
  secret_warnings_def print_warnings_def py_strip_def py_isspace_def

lemma eval_and_method_validated:
  "validate_python_code (parses_to eval_and_method_tree) eval_and_method_source =
     Inr eval_and_method_result"
  by (simp add: validate_eval eval_and_method_tree_def eval_and_method_source_def
        eval_and_method_result_def)

lemma forbidden_in_spec_errors:
  "forbidden_call_message ln x \<in> set (spec_errors n) \<longleftrightarrow>
   (\<exists>args. n = Call ln (Name x) args) \<and> x \<in> FORBIDDEN_CALLS"
  by (induction n rule: spec_errors.induct) auto

lemma import_in_spec_errors:
  "import_message ln x \<in> set (spec_errors n) \<longleftrightarrow>
   (\<exists>names. n = Import ln names \<and> x \<in> set names) \<and> root_segment x \<notin> ALLOWED_IMPORTS"
  by (induction n rule: spec_errors.induct) auto

lemma import_from_in_spec_errors:
  "import_from_message ln m \<in> set (spec_errors n) \<longleftrightarrow>
   n = ImportFrom ln (Some m) \<and> m \<noteq> [] \<and> root_segment m \<notin> ALLOWED_IMPORTS"
  by (induction n rule: spec_errors.induct) auto


subsection \<open>The pattern scans\<close>

lemma first_match_find:
  "\<forall>q \<in> set pats. compile_re q \<noteq> None \<Longrightarrow>
   first_match ic pats (PStr s) = Inr (find (\<lambda>q. re_search ic q (PStr s) = Inr True) pats)"
  by (induction pats) (auto simp: re_search_def)

lemma sensitive_paths_compile: "\<forall>q \<in> set sensitive_paths. compile_re q \<noteq> None"
  by (simp add: sensitive_paths_def compile_re_def close_frame_def close_branch_def)

lemma command_patterns_compile: "\<forall>q \<in> set command_patterns. compile_re q \<noteq> None"
  by (simp add: command_patterns_def compile_re_def close_frame_def close_branch_def escape_def
        py_isalnum_ascii_def)

lemma nullable_search: "nullable r \<Longrightarrow> search ic r s"
  by (cases s) simp_all

lemma wget_pattern_matches_all:
  "re_search ic (''wget.*'' @ [bsl, bsl] @ ''|'') (PStr s) = Inr True"
  by (simp add: re_search_def compile_re_def close_frame_def close_branch_def escape_def
        py_isalnum_ascii_def nullable_search)

lemma execute_command_string_denied:
  assumes "parameters ''command'' = None \<or> parameters ''command'' = Some (PStr s)"
  shows "\<exists>pat \<in> set command_patterns.
           validate_tool_call urlparse ''execute_command'' parameters =
             Inr (deny initial_result (''Command blocked by security policy: '' @ pat))"
proof -
  obtain c where c: "params_get parameters ''command'' (PStr []) = PStr c"
    using assms by (auto simp: params_get_def)
  have "find (\<lambda>q. re_search True q (PStr c) = Inr True) command_patterns \<noteq> None"
    unfolding find_None_iff using wget_pattern_matches_all [of True c]
    by (auto simp: command_patterns_def)
  then obtain pat where f: "find (\<lambda>q. re_search True q (PStr c) = Inr True) command_patterns = Some pat"
    by auto
  then have "pat \<in> set command_patterns"
    by (auto simp: find_Some_iff)
  moreover have "validate_tool_call urlparse ''execute_command'' parameters =
      Inr (deny initial_result (''Command blocked by security policy: '' @ pat))"
    using c f first_match_find [OF command_patterns_compile, of True c]
    by (simp add: validate_tool_call_def validate_execute_command_def generate_security_policy_def
          execute_command_policy_def empty_policy_def)
  ultimately show ?thesis by blast
qed


lemma params_get_string:
  "string_or_absent parameters key \<Longrightarrow> \<exists>s. params_get parameters key (PStr []) = PStr s"
  by (auto simp: string_or_absent_def params_get_def split: option.splits pyval.splits)

lemma string_parameters_return:
  assumes "string_or_absent parameters ''path''"
    and "string_or_absent parameters ''content''"
    and "string_or_absent parameters ''command''"
  shows "\<exists>d. validate_tool_call urlparse tool_name parameters = Inr d"
proof -
  obtain p where p: "params_get parameters ''path'' (PStr []) = PStr p"
    using params_get_string [OF assms(1)] by blast
  obtain c where c: "params_get parameters ''content'' (PStr []) = PStr c"
    using params_get_string [OF assms(2)] by blast
  have fm: "first_match False sensitive_paths (PStr p) =
      Inr (find (\<lambda>q. re_search False q (PStr p) = Inr True) sensitive_paths)"
    by (rule first_match_find [OF sensitive_paths_compile])
  have rd: "\<exists>d. validate_read_file parameters read_file_policy initial_result = Inr d"
    using p fm
    by (simp add: validate_read_file_def read_file_policy_def empty_policy_def Let_def
          split: option.split)
  have wr: "\<exists>d. validate_write_file parameters write_to_file_policy initial_result = Inr d"
    using p c fm
    by (simp add: validate_write_file_def write_to_file_policy_def empty_policy_def Let_def
          split: option.split)
  have ex: "\<exists>d. validate_tool_call urlparse ''execute_command'' parameters = Inr d"
  proof -
    from assms(3) have "parameters ''command'' = None \<or> (\<exists>s. parameters ''command'' = Some (PStr s))"
      by (auto simp: string_or_absent_def split: option.splits pyval.splits)
    then show ?thesis
      using execute_command_string_denied [of parameters _ urlparse] by blast
  qed
  show ?thesis
    using rd wr ex
    by (auto simp: validate_tool_call_def generate_security_policy_def)
qed

lemma show_nat_3: "show_nat 3 = ''3''"
  by code_simp

section \<open>Properties of \<open>validate_tool_call\<close>\<close>

text \<open>
  C1. For \<open>execute_command\<close> with \<open>{"command": "rm -rf /"}\<close> the specification asks for
  a denial whose reason names the destructive pattern that matched. Evaluated on the
  code: the pattern \<open>rm\\s+-rf\<close> of the table asks for a literal backslash after \<open>rm\<close>
  and does not match \<open>rm -rf /\<close>; the denial comes from \<open>wget.*\\|\<close>, whose second
  branch is empty, and the reason names that pattern; \<open>ls -la\<close> is denied with the
  same reason. By \<open>execute_command_string_denied\<close> every command that is a string is
  denied by one of the patterns.
\<close>

theorem rm_rf_reason_names_wget_pattern:
  "validate_tool_call urlparse ''execute_command'' [''command'' \<mapsto> PStr ''rm -rf /''] =
     Inr \<lparr>allowed = False,
          reason = ''Command blocked by security policy: wget.*'' @ [bsl, bsl] @ ''|'',
          decision.warnings = [], modified_params = []\<rparr>
   \<and> re_search True (''rm'' @ [bsl, bsl] @ ''s+-rf'') (PStr ''rm -rf /'') = Inr False
   \<and> validate_tool_call urlparse ''execute_command'' [''command'' \<mapsto> PStr ''ls -la''] =
     Inr \<lparr>allowed = False,
          reason = ''Command blocked by security policy: wget.*'' @ [bsl, bsl] @ ''|'',
          decision.warnings = [], modified_params = []\<rparr>"
  by (simp add: validate_tool_call_def validate_execute_command_def initial_result_def deny_def
        params_get_def policy_defs re_defs)

text \<open>
  C2. The specification says that \<open>read_file\<close> and \<open>write_to_file\<close> deny every path
  that contains \<open>..\<close>. On the code, \<open>../notes.txt\<close> is allowed by both: neither
  validator looks for \<open>..\<close>.
\<close>

theorem traversal_path_allowed_counterexample:
  "py_in ''..'' ''../notes.txt''
   \<and> validate_tool_call (\<lambda>v. Inl []) ''read_file'' [''path'' \<mapsto> PStr ''../notes.txt''] =
        Inr \<lparr>allowed = True, reason = [], decision.warnings = [], modified_params = []\<rparr>
   \<and> validate_tool_call (\<lambda>v. Inl []) ''write_to_file''
        [''path'' \<mapsto> PStr ''../notes.txt'', ''content'' \<mapsto> PStr ''hello''] =
        Inr \<lparr>allowed = True, reason = [], decision.warnings = [], modified_params = []\<rparr>"
  by (simp add: validate_tool_call_def validate_read_file_def validate_write_file_def
        initial_result_def params_get_def generate_security_policy_def read_file_policy_def
        write_to_file_policy_def empty_policy_def sensitive_paths_def re_search_def compile_re_def
        close_frame_def close_branch_def path_suffix_def path_name_def rfind_def py_lower_def
        lower_char_def utf8_len_def)

text \<open>
  C2, as the code has it: when the \<open>path\<close> parameter is a string that one of the
  policy's \<open>blocked_paths\<close> patterns matches, \<open>read_file\<close> and \<open>write_to_file\<close> deny the
  call with a reason giving the path, whatever the other parameters are; and \<open>read_file\<close>
  denies a string path only then.
\<close>

theorem blocked_path_denied:
  assumes "parameters ''path'' = Some (PStr p)"
  shows "(\<exists>d. validate_tool_call urlparse ''read_file'' parameters = Inr d
              \<and> (allowed d \<longleftrightarrow> \<not> (\<exists>pat \<in> set sensitive_paths. re_search False pat (PStr p) = Inr True)))
         \<and> ((\<exists>pat \<in> set sensitive_paths. re_search False pat (PStr p) = Inr True) \<longrightarrow>
              validate_tool_call urlparse ''read_file'' parameters =
                Inr \<lparr>allowed = False, reason = ''Access to path blocked by policy: '' @ p,
                     decision.warnings = [], modified_params = []\<rparr>
              \<and> validate_tool_call urlparse ''write_to_file'' parameters =
                Inr \<lparr>allowed = False, reason = ''Write to path blocked by policy: '' @ p,
                     decision.warnings = [], modified_params = []\<rparr>)"
proof -
  let ?hit = "find (\<lambda>q. re_search False q (PStr p) = Inr True) sensitive_paths"
  have g: "params_get parameters ''path'' (PStr []) = PStr p"
    using assms by (simp add: params_get_def)
  have fm: "first_match False sensitive_paths (PStr p) = Inr ?hit"
    by (rule first_match_find [OF sensitive_paths_compile])
  have hit: "?hit \<noteq> None \<longleftrightarrow> (\<exists>pat \<in> set sensitive_paths. re_search False pat (PStr p) = Inr True)"
    by (auto simp: find_None_iff)
  have rd: "validate_tool_call urlparse ''read_file'' parameters =
      (case ?hit of
         Some q \<Rightarrow> Inr (deny initial_result (''Access to path blocked by policy: '' @ p))
       | None \<Rightarrow>
           (let ext = py_lower (path_suffix p)
            in if ext \<notin> set [''.py'', ''.md'', ''.txt'', ''.json'', ''.yaml'', ''.yml'', ''.js'', ''.ts'',
                              ''.java'', ''.cpp'', ''.c'', ''.h'']
               then Inr (warn initial_result (''File extension '' @ ext @ '' may not be supported''))
               else Inr initial_result))"
    using g fm
    by (simp add: validate_tool_call_def validate_read_file_def generate_security_policy_def
          read_file_policy_def empty_policy_def py_str_def split: option.split)
  have wr: "?hit \<noteq> None \<Longrightarrow> validate_tool_call urlparse ''write_to_file'' parameters =
      Inr (deny initial_result (''Write to path blocked by policy: '' @ p))"
    using g fm
    by (auto simp add: validate_tool_call_def validate_write_file_def generate_security_policy_def
          write_to_file_policy_def empty_policy_def py_str_def)
  show ?thesis
    using rd wr hit
    by (cases ?hit) (auto simp: Let_def deny_def warn_def initial_result_def)
qed

theorem blocked_path_denied_witness:
  "[''path'' \<mapsto> PStr ''../../etc/passwd''] ''path'' = Some (PStr ''../../etc/passwd'')
   \<and> ''/etc/'' \<in> set sensitive_paths
   \<and> re_search False ''/etc/'' (PStr ''../../etc/passwd'') = Inr True
   \<and> validate_tool_call (\<lambda>v. Inl []) ''read_file'' [''path'' \<mapsto> PStr ''../../etc/passwd''] =
        Inr \<lparr>allowed = False, reason = ''Access to path blocked by policy: ../../etc/passwd'',
             decision.warnings = [], modified_params = []\<rparr>
   \<and> validate_tool_call (\<lambda>v. Inl []) ''write_to_file'' [''path'' \<mapsto> PStr ''../../etc/passwd''] =
        Inr \<lparr>allowed = False, reason = ''Write to path blocked by policy: ../../etc/passwd'',
             decision.warnings = [], modified_params = []\<rparr>"
proof -
  have a: "[''path'' \<mapsto> PStr ''../../etc/passwd''] ''path'' = Some (PStr ''../../etc/passwd'')"
    by simp
  have b: "''/etc/'' \<in> set sensitive_paths"
    by (simp add: sensitive_paths_def)
  have c: "re_search False ''/etc/'' (PStr ''../../etc/passwd'') = Inr True"
    by (simp add: re_search_def compile_re_def close_frame_def close_branch_def)
  from b c have d: "\<exists>pat \<in> set sensitive_paths. re_search False pat (PStr ''../../etc/passwd'') = Inr True"
    by blast
  from blocked_path_denied [of "[''path'' \<mapsto> PStr ''../../etc/passwd'']" "''../../etc/passwd''" "\<lambda>v. Inl []", OF a] d
  show ?thesis using a b c by simp
qed


text \<open>
  C3. The specification says that \<open>validate_tool_call\<close> returns a decision and never
  raises, for every parameter mapping. Evaluated on the code: a \<open>path\<close> that is \<open>None\<close>
  makes \<open>re.search\<close> raise \<open>TypeError\<close> in \<open>_validate_read_file\<close>, and a \<open>content\<close> that
  is an integer makes \<open>content.encode\<close> raise \<open>AttributeError\<close> in
  \<open>_validate_write_file\<close>; neither is caught. (When \<open>path\<close>, \<open>content\<close> and \<open>command\<close>
  are strings or absent a decision is returned, by \<open>string_parameters_return\<close>.)
\<close>

theorem non_string_parameter_raises:
  "validate_tool_call urlparse ''read_file'' [''path'' \<mapsto> PNone] = Inl TypeError
   \<and> validate_tool_call urlparse ''write_to_file''
         [''path'' \<mapsto> PStr ''notes.txt'', ''content'' \<mapsto> PInt 42] = Inl AttributeError"
  by (simp add: validate_tool_call_def validate_read_file_def validate_write_file_def
        initial_result_def deny_def params_get_def policy_defs re_defs)

text \<open>
  C4. For every tool name other than \<open>read_file\<close>, \<open>write_to_file\<close>, \<open>execute_command\<close>
  and \<open>browser_navigate\<close>, and every parameter mapping, the decision is the initial one:
  allowed, with empty reason and no warnings. In particular \<open>search_files\<close>, whose
  policy declares blocked patterns, is not checked against them.
\<close>

theorem unlisted_tool_allowed:
  "(tool_name \<notin> {''read_file'', ''write_to_file'', ''execute_command'', ''browser_navigate''} \<longrightarrow>
      validate_tool_call urlparse tool_name parameters =
        Inr \<lparr>allowed = True, reason = [], decision.warnings = [], modified_params = []\<rparr>)
   \<and> blocked_patterns (generate_security_policy ''search_files'') =
        Some [''/etc/'', ''/proc/'', ''/sys/'', ''~/.ssh'', ''~/.gnupg'', ''/root/'']
   \<and> validate_tool_call urlparse ''search_files'' parameters =
        Inr \<lparr>allowed = True, reason = [], decision.warnings = [], modified_params = []\<rparr>"
  by (simp add: validate_tool_call_def initial_result_def generate_security_policy_def
        search_files_policy_def empty_policy_def)

theorem unlisted_tool_allowed_witness:
  "''list_files'' \<notin> {''read_file'', ''write_to_file'', ''execute_command'', ''browser_navigate''}
   \<and> validate_tool_call (\<lambda>v. Inl []) ''list_files'' [''path'' \<mapsto> PStr ''/etc/passwd''] =
        Inr \<lparr>allowed = True, reason = [], decision.warnings = [], modified_params = []\<rparr>"
  using unlisted_tool_allowed
          [of "''list_files''" "\<lambda>v. Inl []" "[''path'' \<mapsto> PStr ''/etc/passwd'']"]
  by simp

section \<open>Properties of the risk assessment\<close>

text \<open>
  C10. At security level \<open>high\<close>, \<open>execute_command\<close> and \<open>browser_navigate\<close> are both of
  risk \<open>high\<close> (whatever their policies), and the compatibility check of the set of the
  two reports exactly one issue, the one about combining command execution with browser
  automation.
\<close>

theorem execute_and_browse_high_risk:
  "assess_tool_risk ''execute_command'' p1 ''high'' = ''high''
   \<and> assess_tool_risk ''browser_navigate'' p2 ''high'' = ''high''
   \<and> check_tool_compatibility [''execute_command'', ''browser_navigate''] =
       [''Combining command execution with browser automation may have security implications'']"
  by (simp add: assess_tool_risk_def check_tool_compatibility_def)

section \<open>Properties of \<open>validate_python_code\<close>\<close>

text \<open>
  C5. Whatever the source text and whatever \<open>ast.parse\<close> makes of it, a result that
  \<open>validate_python_code\<close> returns is valid exactly when its list of errors is empty; the
  warnings play no part.
\<close>

theorem valid_iff_no_errors:
  "validate_python_code ast_parse code = Inr r \<Longrightarrow> valid r = (errors r = [])"
  by (auto simp: validate_python_code_def Let_def split: sum.splits parse_exception.splits)

theorem valid_iff_no_errors_witness:
  "validate_python_code (parses_to eval_and_method_tree) eval_and_method_source =
     Inr eval_and_method_result
   \<and> errors eval_and_method_result = [forbidden_call_message 1 ''eval'']
   \<and> warnings eval_and_method_result = [''No imports detected - code may be incomplete'']
   \<and> valid eval_and_method_result = (errors eval_and_method_result = [])"
  using valid_iff_no_errors
          [of "parses_to eval_and_method_tree" eval_and_method_source eval_and_method_result,
           OF eval_and_method_validated]
        eval_and_method_validated
  by (simp add: eval_and_method_result_def)

text \<open>
  C6. For a source text that parses, a result is returned and its errors are the
  diagnostics of the nodes of the tree in scan order, as \<open>spec_errors\<close> gives them. The
  diagnostic "Line \<open>ln\<close>: Forbidden function call: \<open>x\<close>" is among them exactly when the
  tree has a call at line \<open>ln\<close> whose target is the bare name \<open>x\<close> and \<open>x\<close> is in the
  forbidden set; such a call makes the result invalid; and a call whose target is an
  attribute access adds no diagnostic of its own, whatever the attribute's name (its
  children are still scanned).
\<close>

theorem forbidden_call_flagged:
  assumes "ast_parse code = Inr tree"
  shows "(\<exists>r. validate_python_code ast_parse code = Inr r
            \<and> errors r = concat (map spec_errors (nodes tree))
            \<and> (forbidden_call_message ln x \<in> set (errors r) \<longleftrightarrow>
                 (\<exists>args. Call ln (Name x) args \<in> set (nodes tree)) \<and> x \<in> FORBIDDEN_CALLS)
            \<and> ((\<exists>args. Call ln (Name x) args \<in> set (nodes tree)) \<and> x \<in> FORBIDDEN_CALLS \<longrightarrow>
                 \<not> valid r))
         \<and> validator.errors (visit (Call ln (Attribute value x) args') v) =
             validator.errors (generic_visit (Attribute value x # args') v)"
proof -
  from validate_parsed [of ast_parse code tree, OF assms]
  obtain r where r: "validate_python_code ast_parse code = Inr r"
    and e: "errors r = concat (map spec_errors (nodes tree))"
    and v: "valid r = (errors r = [])"
    by blast
  have iff: "forbidden_call_message ln x \<in> set (errors r) \<longleftrightarrow>
      (\<exists>args. Call ln (Name x) args \<in> set (nodes tree)) \<and> x \<in> FORBIDDEN_CALLS"
    unfolding e by (auto simp: forbidden_in_spec_errors)
  have "errors r \<noteq> []"
    if "(\<exists>args. Call ln (Name x) args \<in> set (nodes tree)) \<and> x \<in> FORBIDDEN_CALLS"
    using that iff by auto
  then have inv: "(\<exists>args. Call ln (Name x) args \<in> set (nodes tree)) \<and> x \<in> FORBIDDEN_CALLS \<longrightarrow>
      \<not> valid r"
    by (simp add: v)
  show ?thesis using r e iff inv by simp
qed

theorem forbidden_call_flagged_witness:
  "parses_to eval_and_method_tree eval_and_method_source = Inr eval_and_method_tree
   \<and> Call 1 (Name ''eval'') [Name ''x''] \<in> set (nodes eval_and_method_tree)
   \<and> ''eval'' \<in> FORBIDDEN_CALLS
   \<and> ''compile'' \<in> FORBIDDEN_CALLS
   \<and> validate_python_code (parses_to eval_and_method_tree) eval_and_method_source =
       Inr eval_and_method_result
   \<and> errors eval_and_method_result = [forbidden_call_message 1 ''eval'']
   \<and> forbidden_call_message 2 ''compile'' \<notin> set (errors eval_and_method_result)
   \<and> \<not> valid eval_and_method_result"
proof -
  have p: "parses_to eval_and_method_tree eval_and_method_source = Inr eval_and_method_tree"
    by (simp add: parses_to_def)
  have n: "Call 1 (Name ''eval'') [Name ''x''] \<in> set (nodes eval_and_method_tree)"
    by (simp add: eval_and_method_tree_def)
  have f: "''eval'' \<in> FORBIDDEN_CALLS" "''compile'' \<in> FORBIDDEN_CALLS"
    by (simp_all add: FORBIDDEN_CALLS_def)
  have m: "\<not> (\<exists>args. Call 2 (Name ''compile'') args \<in> set (nodes eval_and_method_tree))"
    by (simp add: eval_and_method_tree_def)
  have l: "concat (map spec_errors (nodes eval_and_method_tree)) = [forbidden_call_message 1 ''eval'']"
    by (simp add: eval_and_method_tree_def f)
  from forbidden_call_flagged
         [of "parses_to eval_and_method_tree" eval_and_method_source eval_and_method_tree
             1 "''eval''", OF p]
       n f eval_and_method_validated
  have a: "errors eval_and_method_result = concat (map spec_errors (nodes eval_and_method_tree))
           \<and> \<not> valid eval_and_method_result"
    by auto
  from forbidden_call_flagged
         [of "parses_to eval_and_method_tree" eval_and_method_source eval_and_method_tree
             2 "''compile''", OF p]
       m eval_and_method_validated
  have b: "forbidden_call_message 2 ''compile'' \<notin> set (errors eval_and_method_result)"
    by auto
  show ?thesis using p n f a b l eval_and_method_validated by simp
qed

text \<open>
  C7. For a source text that parses, a result is returned; the diagnostic "Line \<open>ln\<close>:
  Unauthorized import: \<open>name\<close>" is among its errors exactly when an \<open>import\<close> at line
  \<open>ln\<close> names the module \<open>name\<close> and the root segment of \<open>name\<close> is not in the
  allow-list, and likewise "Unauthorized import from" for \<open>from name import ...\<close>; such
  an import makes the result invalid; and a module whose root segment is in the
  allow-list never produces either diagnostic.
\<close>

theorem unauthorized_import_flagged:
  assumes "ast_parse code = Inr tree"
  shows "\<exists>r. validate_python_code ast_parse code = Inr r
           \<and> (import_message ln name \<in> set (errors r) \<longleftrightarrow>
                (\<exists>names. Import ln names \<in> set (nodes tree) \<and> name \<in> set names)
                \<and> root_segment name \<notin> ALLOWED_IMPORTS)
           \<and> (import_from_message ln name \<in> set (errors r) \<longleftrightarrow>
                ImportFrom ln (Some name) \<in> set (nodes tree) \<and> name \<noteq> []
                \<and> root_segment name \<notin> ALLOWED_IMPORTS)
           \<and> (((\<exists>names. Import ln names \<in> set (nodes tree) \<and> name \<in> set names)
                 \<or> (ImportFrom ln (Some name) \<in> set (nodes tree) \<and> name \<noteq> []))
                \<and> root_segment name \<notin> ALLOWED_IMPORTS \<longrightarrow>
                \<not> valid r)
           \<and> (root_segment name \<in> ALLOWED_IMPORTS \<longrightarrow>
                import_message ln name \<notin> set (errors r)
                \<and> import_from_message ln name \<notin> set (errors r))"
proof -
  from validate_parsed [of ast_parse code tree, OF assms]
  obtain r where r: "validate_python_code ast_parse code = Inr r"
    and e: "errors r = concat (map spec_errors (nodes tree))"
    and v: "valid r = (errors r = [])"
    by blast
  have i1: "import_message ln name \<in> set (errors r) \<longleftrightarrow>
      (\<exists>names. Import ln names \<in> set (nodes tree) \<and> name \<in> set names)
      \<and> root_segment name \<notin> ALLOWED_IMPORTS"
    unfolding e by (auto simp: import_in_spec_errors)
  have i2: "import_from_message ln name \<in> set (errors r) \<longleftrightarrow>
      ImportFrom ln (Some name) \<in> set (nodes tree) \<and> name \<noteq> []
      \<and> root_segment name \<notin> ALLOWED_IMPORTS"
    unfolding e by (auto simp: import_from_in_spec_errors)
  have i3: "((\<exists>names. Import ln names \<in> set (nodes tree) \<and> name \<in> set names)
               \<or> (ImportFrom ln (Some name) \<in> set (nodes tree) \<and> name \<noteq> []))
              \<and> root_segment name \<notin> ALLOWED_IMPORTS \<longrightarrow>
              \<not> valid r"
    using i1 i2 unfolding v by (metis empty_iff empty_set)
  show ?thesis using r i1 i2 i3 by blast
qed

theorem unauthorized_import_flagged_witness:
  "parses_to (Other [Import 1 [''os.path'', ''socket.io'']]) ''import os.path, socket.io'' =
      Inr (Other [Import 1 [''os.path'', ''socket.io'']])
   \<and> root_segment ''socket.io'' \<notin> ALLOWED_IMPORTS
   \<and> root_segment ''os.path'' \<in> ALLOWED_IMPORTS
   \<and> validate_python_code (parses_to (Other [Import 1 [''os.path'', ''socket.io'']]))
        ''import os.path, socket.io'' =
       Inr \<lparr>valid = False, errors = [import_message 1 ''socket.io''], warnings = [],
            imports_found = [''os.path'', ''socket.io'']\<rparr>
   \<and> import_message 1 ''os.path'' \<notin> set [import_message 1 ''socket.io'']"
proof -
  let ?parse = "parses_to (Other [Import 1 [''os.path'', ''socket.io'']])"
  let ?code = "''import os.path, socket.io''"
  have p: "?parse ?code = Inr (Other [Import 1 [''os.path'', ''socket.io'']])"
    by (simp add: parses_to_def)
  have n: "Import 1 [''os.path'', ''socket.io''] \<in> set (nodes (Other [Import 1 [''os.path'', ''socket.io'']]))"
    by simp
  have r1: "root_segment ''socket.io'' \<notin> ALLOWED_IMPORTS"
    by (simp add: root_segment_def ALLOWED_IMPORTS_def)
  have r2: "root_segment ''os.path'' \<in> ALLOWED_IMPORTS"
    by (simp add: root_segment_def ALLOWED_IMPORTS_def)
  have m: "''socket.io'' \<in> set [''os.path'', ''socket.io'']" by simp
  have ev: "validate_python_code ?parse ?code =
       Inr \<lparr>valid = False, errors = [import_message 1 ''socket.io''], warnings = [],
            imports_found = [''os.path'', ''socket.io'']\<rparr>"
    by (simp add: validate_eval)
  from unauthorized_import_flagged
         [of ?parse ?code "Other [Import 1 [''os.path'', ''socket.io'']]" 1 "''socket.io''", OF p]
       n r1 m ev
  have a: "import_message 1 ''socket.io'' \<in> set [import_message 1 ''socket.io'']"
    by auto
  from unauthorized_import_flagged
         [of ?parse ?code "Other [Import 1 [''os.path'', ''socket.io'']]" 1 "''os.path''", OF p]
       r2 ev
  have b: "import_message 1 ''os.path'' \<notin> set [import_message 1 ''socket.io'']"
    by auto
  show ?thesis using p r1 r2 ev b by simp
qed

text \<open>
  C8. The specification says that for every source text that fails to parse a result
  is returned, with a single error that cites the failing line. On the code, for the
  text \<open>x = 1\<close> followed by a NUL character: where \<open>ast.parse\<close> raises \<open>ValueError\<close> the
  exception leaves \<open>validate_python_code\<close>, which catches \<open>SyntaxError\<close> alone; where
  \<open>ast.parse\<close> raises a \<open>SyntaxError\<close> without a line, the diagnostic reads "line None"
  and cites no line.
\<close>

theorem parse_failure_counterexample:
  "validate_python_code (fails_with (NotSyntaxError ValueError)) nul_source = Inl ValueError
   \<and> validate_python_code (fails_with (IsSyntaxError nul_syntax_error)) nul_source =
       Inr \<lparr>valid = False,
            errors = [''Syntax error at line None: source code string cannot contain null bytes''],
            warnings = [], imports_found = []\<rparr>"
  by (simp add: validate_python_code_def fails_with_def nul_syntax_error_def)

text \<open>
  C8, as the code has it: when \<open>ast.parse\<close> raises \<open>SyntaxError\<close>, a result is returned;
  it is invalid, its errors are the single diagnostic "Syntax error at line \<open>n\<close>: \<open>msg\<close>"
  made of the error's line and message (the line reads \<open>None\<close> when the error has
  none), and warnings and imports are empty: no scan has run.
\<close>

theorem parse_failure_single_error:
  "ast_parse code = Inl (IsSyntaxError e) \<Longrightarrow>
   validate_python_code ast_parse code =
     Inr \<lparr>valid = False,
          errors = [''Syntax error at line ''
                    @ (case lineno e of None \<Rightarrow> ''None'' | Some n \<Rightarrow> show_nat n)
                    @ '': '' @ msg e],
          warnings = [], imports_found = []\<rparr>"
  by (simp add: validate_python_code_def)

theorem parse_failure_single_error_witness:
  "fails_with (IsSyntaxError bad_third_line_error) bad_third_line_source =
      Inl (IsSyntaxError bad_third_line_error)
   \<and> validate_python_code (fails_with (IsSyntaxError bad_third_line_error)) bad_third_line_source =
       Inr \<lparr>valid = False, errors = [''Syntax error at line 3: invalid syntax''],
            warnings = [], imports_found = []\<rparr>"
  using parse_failure_single_error
          [of "fails_with (IsSyntaxError bad_third_line_error)" bad_third_line_source
              bad_third_line_error]
  by (simp add: fails_with_def bad_third_line_error_def show_nat_3)

text \<open>
  C9. The specification says that each import declaration records the root segment of
  its module path. On the code, \<open>import os.path\<close> records \<open>os.path\<close>, not \<open>os\<close>.
\<close>

theorem imports_found_full_paths_counterexample:
  "validate_python_code (parses_to (Other [Import 1 [''os.path'']])) ''import os.path'' =
     Inr \<lparr>valid = True, errors = [], warnings = [], imports_found = [''os.path'']\<rparr>
   \<and> concat (map spec_recorded_roots (nodes (Other [Import 1 [''os.path'']]))) = [''os'']
   \<and> ''os'' \<notin> set [''os.path'']"
  by (simp add: validate_eval spec_recorded_roots_def)

text \<open>
  C9, as the code has it: for a source text that parses, a result is returned and its
  \<open>imports_found\<close> is the module paths as the import declarations write them, in scan
  order (every alias of an \<open>import\<close>, the module of a \<open>from ... import\<close> that has one);
  the root segment is used for the allow-list test only.
\<close>

theorem imports_found_written_modules:
  "ast_parse code = Inr tree \<Longrightarrow>
   \<exists>r. validate_python_code ast_parse code = Inr r
       \<and> imports_found r = concat (map written_modules (nodes tree))"
  by (simp add: validate_python_code_def Let_def visit_imports new_validator_def)

theorem imports_found_written_modules_witness:
  "parses_to three_imports_tree three_imports_source = Inr three_imports_tree
   \<and> validate_python_code (parses_to three_imports_tree) three_imports_source =
       Inr \<lparr>valid = True, errors = [], warnings = [],
            imports_found = [''os.path'', ''langchain.tools'']\<rparr>
   \<and> concat (map written_modules (nodes three_imports_tree)) = [''os.path'', ''langchain.tools'']"
proof -
  have p: "parses_to three_imports_tree three_imports_source = Inr three_imports_tree"
    by (simp add: parses_to_def)
  have ev: "validate_python_code (parses_to three_imports_tree) three_imports_source =
       Inr \<lparr>valid = True, errors = [], warnings = [],
            imports_found = [''os.path'', ''langchain.tools'']\<rparr>"
    by (simp add: validate_eval three_imports_tree_def three_imports_source_def)
  from imports_found_written_modules
         [of "parses_to three_imports_tree" three_imports_source three_imports_tree, OF p] ev
  have "concat (map written_modules (nodes three_imports_tree)) = [''os.path'', ''langchain.tools'']"
    by auto
  then show ?thesis using p ev by simp
qed

end
